theory Spec2Isabelle
  imports Complex_Main
begin

section \<open>JavaScript values\<close>

text \<open>
  The style objects handled by \<^verbatim>\<open>AreaChart.tsx\<close> are plain JavaScript values. An object
  is the list of its own properties, in order; a function is an object too and carries
  its own properties. Inherited (prototype) properties and the index properties of
  strings are not modelled. Numbers inside styles are reals (there is no NaN among them).
\<close>

datatype jsval =
    JUndefined
  | JNull
  | JBool bool
  | JNum real
  | JStr string
  | JObj "(string \<times> jsval) list"
  | JFun "(string \<times> jsval) list"

datatype js_error = TypeError

text \<open>What \<^verbatim>\<open>v ? a : b\<close>, \<^verbatim>\<open>!v\<close> and \<^verbatim>\<open>if (v)\<close> test.\<close>

fun truthy :: "jsval \<Rightarrow> bool" where
  "truthy JUndefined = False"
| "truthy JNull = False"
| "truthy (JBool b) = b"
| "truthy (JNum x) = (x \<noteq> 0)"
| "truthy (JStr s) = (s \<noteq> [])"
| "truthy (JObj kvs) = True"
| "truthy (JFun kvs) = True"

text \<open>
  The property read \<^verbatim>\<open>v[k]\<close>: a TypeError on \<^verbatim>\<open>undefined\<close> and \<^verbatim>\<open>null\<close>,
  \<^verbatim>\<open>undefined\<close> for a property that is not there.
\<close>

fun get_prop :: "jsval \<Rightarrow> string \<Rightarrow> js_error + jsval" where
  "get_prop JUndefined k = Inl TypeError"
| "get_prop JNull k = Inl TypeError"
| "get_prop (JObj kvs) k = (case map_of kvs k of Some v \<Rightarrow> Inr v | None \<Rightarrow> Inr JUndefined)"
| "get_prop (JFun kvs) k = (case map_of kvs k of Some v \<Rightarrow> Inr v | None \<Rightarrow> Inr JUndefined)"
| "get_prop v k = Inr JUndefined"

text \<open>
  The three functions of underscore the component calls:
  \<^verbatim>\<open>_.has(obj, key)\<close> is \<^verbatim>\<open>obj != null && hasOwnProperty.call(obj, key)\<close>,
  \<^verbatim>\<open>_.isObject\<close> holds of objects and functions, \<^verbatim>\<open>_.isFunction\<close> of functions.
\<close>

fun has :: "jsval \<Rightarrow> string \<Rightarrow> bool" where
  "has (JObj kvs) k = (k \<in> fst ` set kvs)"
| "has (JFun kvs) k = (k \<in> fst ` set kvs)"
| "has v k = False"

fun isObject :: "jsval \<Rightarrow> bool" where
  "isObject (JObj kvs) = True"
| "isObject (JFun kvs) = True"
| "isObject v = False"

fun isFunction :: "jsval \<Rightarrow> bool" where
  "isFunction (JFun kvs) = True"
| "isFunction v = False"

text \<open>
  The primitive values, which the props \<^verbatim>\<open>width\<close>, \<^verbatim>\<open>interpolation\<close>,
  \<^verbatim>\<open>highlight\<close> and \<^verbatim>\<open>selection\<close> hold: \<^verbatim>\<open>undefined\<close> (a prop that is not given),
  \<^verbatim>\<open>null\<close>, a boolean, \<^verbatim>\<open>NaN\<close>, any other number (as a real: the two zeros are the same
  number and the infinities are left out), or a string.
\<close>

datatype primitive =
    PUndefined
  | PNull
  | PBool bool
  | PNaN
  | PNum real
  | PStr string

fun truthy_prim :: "primitive \<Rightarrow> bool" where
  "truthy_prim PUndefined = False"
| "truthy_prim PNull = False"
| "truthy_prim (PBool b) = b"
| "truthy_prim PNaN = False"
| "truthy_prim (PNum x) = (x \<noteq> 0)"
| "truthy_prim (PStr s) = (s \<noteq> [])"

text \<open>
  \<^verbatim>\<open>a !== b\<close> on primitive values: \<^verbatim>\<open>NaN\<close> differs from every value, itself included;
  two other values differ when they are not the same value (\<^verbatim>\<open>undefined\<close> and \<^verbatim>\<open>null\<close>
  differ).
\<close>

definition strict_neq :: "primitive \<Rightarrow> primitive \<Rightarrow> bool" where
  "strict_neq a b = (a = PNaN \<or> b = PNaN \<or> a \<noteq> b)"

section \<open>AreaChart: data\<close>

text \<open>
  \<^verbatim>\<open>defaultStyle\<close> (AreaChart.tsx, lines 43-56).
\<close>

definition defaultStyle :: jsval where
  "defaultStyle = JObj
     [(''line'', JObj
        [(''normal'', JObj [(''stroke'', JStr ''steelblue''), (''fill'', JStr ''none''), (''strokeWidth'', JNum 1)]),
         (''highlighted'', JObj [(''stroke'', JStr ''#5a98cb''), (''fill'', JStr ''none''), (''strokeWidth'', JNum 1)]),
         (''selected'', JObj [(''stroke'', JStr ''steelblue''), (''fill'', JStr ''none''), (''strokeWidth'', JNum 1)]),
         (''muted'', JObj [(''stroke'', JStr ''steelblue''), (''fill'', JStr ''none''), (''opacity'', JNum 0.4), (''strokeWidth'', JNum 1)])]),
      (''area'', JObj
        [(''normal'', JObj [(''fill'', JStr ''steelblue''), (''stroke'', JStr ''none''), (''opacity'', JNum 0.75)]),
         (''highlighted'', JObj [(''fill'', JStr ''#5a98cb''), (''stroke'', JStr ''none''), (''opacity'', JNum 0.75)]),
         (''selected'', JObj [(''fill'', JStr ''steelblue''), (''stroke'', JStr ''none''), (''opacity'', JNum 0.75)]),
         (''muted'', JObj [(''fill'', JStr ''steelblue''), (''stroke'', JStr ''none''), (''opacity'', JNum 0.25)])])]"

text \<open>
  A point of the series (a pondjs event): its timestamp and the value it holds for a
  column name. The numbers of the chart are of a type \<open>'n\<close> of which only \<open>0\<close>, \<open>1\<close>,
  \<open>+\<close>, \<open>*\<close> and unary minus are used, with no law assumed of them: what is proved
  of the stacking holds of floating-point arithmetic as it does of the integers.
\<close>

type_synonym time = int

record 'n event =
  timestamp :: time
  get :: "string \<Rightarrow> 'n"

text \<open>
  A scale is a function object: \<open>scale_ref\<close> is its identity (what \<^verbatim>\<open>!==\<close> compares),
  \<open>scale_fn\<close> what calling it returns.
\<close>

record ('a, 'b) scale =
  scale_ref :: nat
  scale_fn :: "'a \<Rightarrow> 'b"

record AreaChartColumns =
  up :: "string list option"
  down :: "string list option"

text \<open>
  The \<^verbatim>\<open>style\<close> prop is either an instance of the class \<^verbatim>\<open>Styler\<close> (of
  \<^verbatim>\<open>js/styler\<close>, which is not among the sources: the instance is represented by what
  its method \<^verbatim>\<open>areaChartStyle()\<close> returns), or any other value.
\<close>

datatype style_value = Styler jsval | Plain jsval

fun truthy_style :: "style_value \<Rightarrow> bool" where
  "truthy_style (Styler acs) = True"
| "truthy_style (Plain v) = truthy v"

text \<open>A callback prop is a function object, known by its identity.\<close>

type_synonym callback = nat

text \<open>The props of the component (\<^verbatim>\<open>AreaChartProps\<close>, lines 63-74, with the \<^verbatim>\<open>ChartProps\<close> it reads).\<close>

record 'n props =
  series :: "'n event list"
  columns :: AreaChartColumns
  style_prop :: style_value
  interpolation :: primitive
  axis :: string
  stack :: "bool option"
  highlight :: primitive
  selection :: primitive
  onHighlightChange :: "callback option"
  onSelectionChange :: "callback option"
  width :: primitive
  timeScale :: "(time, 'n) scale"
  yScale :: "('n, 'n) scale"

text \<open>One element of the array \<^verbatim>\<open>data\<close> built by \<^verbatim>\<open>renderPaths\<close>.\<close>

record 'n point =
  x0 :: 'n
  y0 :: 'n
  y1 :: 'n

text \<open>
  The libraries the component calls, as parameters: \<^verbatim>\<open>merge\<close> (of the package
  merge, with its leading \<^verbatim>\<open>clone\<close> flag), the \<^verbatim>\<open>area\<close> and \<^verbatim>\<open>line\<close> generators
  of d3-shape, configured by a curve and the accessors and applied to the data, the table
  \<^verbatim>\<open>curves\<close> of \<^verbatim>\<open>js/curve\<close>, \<^verbatim>\<open>scaleAsString\<close> of \<^verbatim>\<open>js/util\<close>,
  \<^verbatim>\<open>TimeSeries.is\<close> of pondjs and \<^verbatim>\<open>JSON.stringify\<close> at the two types it is used at
  (it returns \<^verbatim>\<open>undefined\<close>, here \<open>None\<close>, or a string).
\<close>

record ('n, 'c) libs =
  merge :: "bool \<Rightarrow> jsval \<Rightarrow> jsval \<Rightarrow> jsval"
  d3_area :: "'c \<Rightarrow> ('n point \<Rightarrow> 'n) \<Rightarrow> ('n point \<Rightarrow> 'n) \<Rightarrow> ('n point \<Rightarrow> 'n) \<Rightarrow> 'n point list \<Rightarrow> string"
  d3_line :: "'c \<Rightarrow> ('n point \<Rightarrow> 'n) \<Rightarrow> ('n point \<Rightarrow> 'n) \<Rightarrow> 'n point list \<Rightarrow> string"
  curves :: "primitive \<Rightarrow> 'c"
  scaleAsString :: "(time, 'n) scale \<Rightarrow> string"
  TimeSeries_is :: "'n event list \<Rightarrow> 'n event list \<Rightarrow> bool"
  stringify_columns :: "AreaChartColumns \<Rightarrow> string option"
  stringify_style :: "style_value \<Rightarrow> string option"

section \<open>AreaChart: style resolution\<close>

text \<open>
  \<^verbatim>\<open>providedAreaStyleMap(column)\<close> (lines 191-205). The third test is kept as the source
  has it, although \<^verbatim>\<open>_.isObject\<close> already holds of every function.
\<close>

definition providedAreaStyleMap :: "'n props \<Rightarrow> string \<Rightarrow> js_error + jsval" where
  "providedAreaStyleMap P column =
     (if truthy_style (style_prop P) then
        (case style_prop P of
           Styler acs \<Rightarrow> get_prop acs column
         | Plain v \<Rightarrow>
             if isObject v then get_prop v column
             else if isFunction v then get_prop v column
             else Inr defaultStyle)
      else Inr defaultStyle)"

text \<open>
  The expression
  \<^verbatim>\<open>merge(true, defaultStyle[type].V, styleMap[type].V ? styleMap[type].V : {})\<close>
  that each branch of \<^verbatim>\<open>style\<close> evaluates for its own variant \<open>V\<close>. The arguments are
  evaluated from left to right, and a property read of \<^verbatim>\<open>undefined\<close> throws.
\<close>

definition merge_variant ::
  "('n, 'c) libs \<Rightarrow> jsval \<Rightarrow> string \<Rightarrow> string \<Rightarrow> js_error + jsval" where
  "merge_variant E styleMap type V =
     (case get_prop defaultStyle type of
        Inl e \<Rightarrow> Inl e
      | Inr dt \<Rightarrow>
     (case get_prop dt V of
        Inl e \<Rightarrow> Inl e
      | Inr dv \<Rightarrow>
     (case get_prop styleMap type of
        Inl e \<Rightarrow> Inl e
      | Inr st \<Rightarrow>
     (case get_prop st V of
        Inl e \<Rightarrow> Inl e
      | Inr sv \<Rightarrow> Inr (merge E True dv (if truthy sv then sv else JObj [])))))) "

text \<open>A call of \<^verbatim>\<open>console.error\<close> is recorded as the list of its arguments.\<close>

type_synonym console = "jsval list list"

text \<open>
  \<^verbatim>\<open>style(column, type)\<close> (lines 210-241): the messages written to the console, and
  the style returned or the error thrown.
\<close>

definition style :: "('n, 'c) libs \<Rightarrow> 'n props \<Rightarrow> string \<Rightarrow> string \<Rightarrow> console \<times> (js_error + jsval)" where
  "style E P column type =
     (case providedAreaStyleMap P column of
        Inl e \<Rightarrow> ([], Inl e)
      | Inr styleMap \<Rightarrow>
          let isHighlighted = (truthy_prim (highlight P) \<and> PStr column = highlight P);
              isSelected = (truthy_prim (selection P) \<and> PStr column = selection P);
              out1 = (if \<not> has styleMap ''line''
                      then [[JStr ''Provided style for AreaChart does not define a style for the outline:'',
                             styleMap, JStr column]]
                      else []);
              out2 = (if \<not> has styleMap ''area''
                      then [[JStr ''Provided style for AreaChart does not define a style for the area:'',
                             styleMap]]
                      else [])
          in (out1 @ out2,
              if truthy_prim (selection P) then
                (if isSelected then merge_variant E styleMap type ''selected''
                 else if isHighlighted then merge_variant E styleMap type ''highlighted''
                 else merge_variant E styleMap type ''muted'')
              else if isHighlighted then merge_variant E styleMap type ''highlighted''
              else merge_variant E styleMap type ''normal''))"

definition pathStyle :: "('n, 'c) libs \<Rightarrow> 'n props \<Rightarrow> string \<Rightarrow> console \<times> (js_error + jsval)" where
  "pathStyle E P column = style E P column ''line''"

definition areaStyle :: "('n, 'c) libs \<Rightarrow> 'n props \<Rightarrow> string \<Rightarrow> console \<times> (js_error + jsval)" where
  "areaStyle E P column = style E P column ''area''"

section \<open>AreaChart: event handlers\<close>

text \<open>
  What a handler does is the list of the calls it makes, in order: stopping the
  propagation of the event, or calling a callback prop with a column (\<open>Some column\<close>)
  or with \<^verbatim>\<open>null\<close> (\<open>None\<close>). An event is known by its identity.
\<close>

type_synonym dom_event = nat

datatype call = StopPropagation dom_event | Invoke callback "string option"

text \<open>\<^verbatim>\<open>handleHover\<close>, \<^verbatim>\<open>handleHoverLeave\<close> and \<^verbatim>\<open>handleClick\<close> (lines 172-189).\<close>

definition handleHover :: "'n props \<Rightarrow> dom_event \<Rightarrow> string \<Rightarrow> call list" where
  "handleHover P e column =
     (case onHighlightChange P of
        Some f \<Rightarrow> [Invoke f (Some column)]
      | None \<Rightarrow> [])"

definition handleHoverLeave :: "'n props \<Rightarrow> call list" where
  "handleHoverLeave P =
     (case onHighlightChange P of
        Some f \<Rightarrow> [Invoke f None]
      | None \<Rightarrow> [])"

definition handleClick :: "'n props \<Rightarrow> dom_event \<Rightarrow> string \<Rightarrow> call list" where
  "handleClick P e column =
     StopPropagation e #
     (case onSelectionChange P of
        Some f \<Rightarrow> [Invoke f (Some column)]
      | None \<Rightarrow> [])"

section \<open>AreaChart: rendering\<close>

text \<open>
  A rendered \<^verbatim>\<open>path\<close> element. Its handlers are closures over \<^verbatim>\<open>this\<close> and the
  column: they read \<^verbatim>\<open>this.props\<close> when the event arrives, so a handler is a function
  of the props of that moment and of the event.
\<close>

record 'n path_element =
  path_d :: string
  path_style :: jsval
  onClick :: "'n props \<Rightarrow> dom_event \<Rightarrow> call list"
  onMouseLeave :: "'n props \<Rightarrow> dom_event \<Rightarrow> call list"
  onMouseMove :: "'n props \<Rightarrow> dom_event \<Rightarrow> call list"

text \<open>
  What the callback of \<^verbatim>\<open>columnList.map\<close> produces for one column: the \<^verbatim>\<open>g\<close>
  element with its key and its two paths. The field \<open>points\<close> keeps the local array \<^verbatim>\<open>data\<close>
  beside the two paths generated from it.
\<close>

record 'n area_group =
  key :: string
  points :: "'n point list"
  areaPath :: "'n path_element"
  outlinePath :: "'n path_element"

datatype 'n element = G "'n element list" | Paths "'n area_group list"

text \<open>The decimal digits of an array index, as the template literal of the key prints it.\<close>

function show_nat :: "nat \<Rightarrow> string" where
  "show_nat n =
     (if n < 10 then [''0123456789'' ! n]
      else show_nat (n div 10) @ [''0123456789'' ! (n mod 10)])"
  by pat_completeness auto
termination
  by (relation "measure id") auto

declare show_nat.simps [simp del]

text \<open>
  The arrays of numbers of the JavaScript heap: an address is an index into the list,
  and \<^verbatim>\<open>new Array(size).fill(v)\<close> allocates at the next free address.
\<close>

type_synonym 'n heap = "'n list list"

definition new_Array_fill :: "'n heap \<Rightarrow> nat \<Rightarrow> 'n \<Rightarrow> nat \<times> 'n heap" where
  "new_Array_fill h len v = (length h, h @ [replicate len v])"

text \<open>
  The loop \<^verbatim>\<open>for (let j = 0; j < this.props.series.size(); j += 1)\<close> of
  \<^verbatim>\<open>renderPaths\<close> (lines 261-271). \<open>offsets\<close> is the address of the array of that name,
  \<open>data\<close> the array being filled by \<^verbatim>\<open>push\<close>. The array at \<open>offsets\<close> was allocated
  with one entry per point of the series, so index \<open>j\<close> is in its range.
\<close>

function stack_loop ::
  "'n::{plus,times} props \<Rightarrow> 'n \<Rightarrow> string \<Rightarrow> nat \<Rightarrow> nat \<Rightarrow> 'n heap \<Rightarrow> 'n point list
     \<Rightarrow> 'n heap \<times> 'n point list" where
  "stack_loop P dir column offsets j h data =
     (if j < length (series P) then
        let seriesPoint = series P ! j;
            data' = data @
              [\<lparr>x0 = scale_fn (timeScale P) (timestamp seriesPoint),
                y0 = scale_fn (yScale P) (h ! offsets ! j),
                y1 = scale_fn (yScale P) (h ! offsets ! j + dir * get seriesPoint column)\<rparr>];
            h' = (if stack P = Some True
                  then h[offsets := (h ! offsets)[j := h ! offsets ! j + dir * get seriesPoint column]]
                  else h)
        in stack_loop P dir column offsets (j + 1) h' data'
      else (h, data))"
  by pat_completeness auto
termination
  by (relation "measure (\<lambda>(P, dir, column, offsets, j, h, data). length (series P) - j)") auto

declare stack_loop.simps [simp del]

text \<open>
  The callback of \<^verbatim>\<open>columnList.map\<close> (lines 255-308), for the column at index \<open>i\<close>:
  the two styles, the loop, the two generators and the element. A style that throws ends
  the callback.
\<close>

definition render_path ::
  "('n::{plus,times}, 'c) libs \<Rightarrow> 'n props \<Rightarrow> 'n \<Rightarrow> nat \<Rightarrow> 'n heap \<Rightarrow> string \<Rightarrow> nat
     \<Rightarrow> 'n heap \<times> console \<times> (js_error + 'n area_group)" where
  "render_path E P dir offsets h column i =
     (case areaStyle E P column of
        (c1, Inl e) \<Rightarrow> (h, c1, Inl e)
      | (c1, Inr style') \<Rightarrow>
     (case pathStyle E P column of
        (c2, Inl e) \<Rightarrow> (h, c1 @ c2, Inl e)
      | (c2, Inr pathStyle') \<Rightarrow>
     (case stack_loop P dir column offsets 0 h [] of
        (h', data') \<Rightarrow>
          let areaGenerator = d3_area E (curves E (interpolation P)) x0 y0 y1;
              areaPath' = areaGenerator data';
              lineGenerator = d3_line E (curves E (interpolation P)) x0 y1;
              outlinePath' = lineGenerator data'
          in (h', c1 @ c2,
              Inr \<lparr>key = ''area-'' @ show_nat i,
                   points = data',
                   areaPath =
                     \<lparr>path_d = areaPath', path_style = style',
                      onClick = (\<lambda>Q e. handleClick Q e column),
                      onMouseLeave = (\<lambda>Q e. handleHoverLeave Q),
                      onMouseMove = (\<lambda>Q e. handleHover Q e column)\<rparr>,
                   outlinePath =
                     \<lparr>path_d = outlinePath', path_style = pathStyle',
                      onClick = (\<lambda>Q e. handleClick Q e column),
                      onMouseLeave = (\<lambda>Q e. handleHoverLeave Q),
                      onMouseMove = (\<lambda>Q e. handleHover Q e column)\<rparr>\<rparr>))))"

text \<open>
  \<^verbatim>\<open>columnList.map\<close>: the callback on each column in turn, from index \<open>i\<close> on, the
  heap and the console passed along. An error ends the map.
\<close>

fun map_paths ::
  "('n::{plus,times}, 'c) libs \<Rightarrow> 'n props \<Rightarrow> 'n \<Rightarrow> nat \<Rightarrow> string list \<Rightarrow> nat \<Rightarrow> 'n heap
     \<Rightarrow> 'n heap \<times> console \<times> (js_error + 'n area_group list)" where
  "map_paths E P dir offsets [] i h = (h, [], Inr [])"
| "map_paths E P dir offsets (column # rest) i h =
     (case render_path E P dir offsets h column i of
        (h1, c1, Inl e) \<Rightarrow> (h1, c1, Inl e)
      | (h1, c1, Inr g) \<Rightarrow>
     (case map_paths E P dir offsets rest (i + 1) h1 of
        (h2, c2, Inl e) \<Rightarrow> (h2, c1 @ c2, Inl e)
      | (h2, c2, Inr gs) \<Rightarrow> (h2, c1 @ c2, Inr (g # gs))))"

text \<open>\<^verbatim>\<open>renderPaths(columnList, direction)\<close> (lines 251-309).\<close>

definition renderPaths ::
  "('n::{zero,one,plus,times,uminus}, 'c) libs \<Rightarrow> 'n props \<Rightarrow> 'n heap \<Rightarrow> string list \<Rightarrow> string
     \<Rightarrow> 'n heap \<times> console \<times> (js_error + 'n area_group list)" where
  "renderPaths E P h columnList direction =
     (let dir = (if direction = ''up'' then 1 else - 1);
          len = length (series P)
      in case new_Array_fill h len 0 of
           (offsets, h0) \<Rightarrow> map_paths E P dir offsets columnList 0 h0)"

text \<open>
  The two lists of columns \<^verbatim>\<open>renderAreas\<close> draws: \<^verbatim>\<open>this.props.columns.up || []\<close> and
  \<^verbatim>\<open>this.props.columns.down || []\<close>.
\<close>

definition up_columns :: "'n props \<Rightarrow> string list" where
  "up_columns P = (case up (columns P) of Some l \<Rightarrow> l | None \<Rightarrow> [])"

definition down_columns :: "'n props \<Rightarrow> string list" where
  "down_columns P = (case down (columns P) of Some l \<Rightarrow> l | None \<Rightarrow> [])"

text \<open>\<^verbatim>\<open>renderAreas()\<close> (lines 311-320) and \<^verbatim>\<open>render()\<close> (lines 322-328).\<close>

definition renderAreas ::
  "('n::{zero,one,plus,times,uminus}, 'c) libs \<Rightarrow> 'n props \<Rightarrow> 'n heap
     \<Rightarrow> 'n heap \<times> console \<times> (js_error + 'n element)" where
  "renderAreas E P h =
     (let up' = up_columns P;
          down' = down_columns P
      in case renderPaths E P h up' ''up'' of
           (h1, c1, Inl e) \<Rightarrow> (h1, c1, Inl e)
         | (h1, c1, Inr ups) \<Rightarrow>
        (case renderPaths E P h1 down' ''down'' of
           (h2, c2, Inl e) \<Rightarrow> (h2, c1 @ c2, Inl e)
         | (h2, c2, Inr downs) \<Rightarrow> (h2, c1 @ c2, Inr (G [Paths ups, Paths downs]))))"


section \<open>AreaChart: rendering on a store\<close>

text \<open>
  The same functions once more, with the objects behind the props in a store, as the
  JavaScript heap has them: the arrays of numbers, the arrays of strings (the lists of
  the \<^verbatim>\<open>columns\<close> prop) and the TimeSeries objects (the \<^verbatim>\<open>series\<close> prop). An object is
  known by its address, an index into the list of the objects of its kind; allocating
  an object appends it. Whatever these functions read of the series and of the columns
  they read from the store, at every step, and they return the store as they leave it.
\<close>

record 'n store =
  number_arrays :: "'n list list"
  string_arrays :: "string list list"
  time_series :: "'n event list list"

text \<open>
  The addresses the props hold: the series, and the two fields of the \<^verbatim>\<open>columns\<close>
  object (\<open>None\<close> for a field that is undefined). The other props are taken from a
  record \<open>P\<close> of props, whose fields \<open>series\<close> and \<open>columns\<close> the functions of this
  section never read.
\<close>

record chart_refs =
  series_ref :: nat
  up_ref :: "nat option"
  down_ref :: "nat option"


text \<open>The props as values: \<open>P\<close> with the series and the columns that the store holds.\<close>

definition read_props :: "'n store \<Rightarrow> chart_refs \<Rightarrow> 'n props \<Rightarrow> 'n props" where
  "read_props S R P =
     P\<lparr>series := time_series S ! series_ref R,
       columns := \<lparr>up = map_option (\<lambda>a. string_arrays S ! a) (up_ref R),
                   down = map_option (\<lambda>a. string_arrays S ! a) (down_ref R)\<rparr>\<rparr>"










section \<open>AreaChart: shouldComponentUpdate\<close>

text \<open>
  \<^verbatim>\<open>shouldComponentUpdate(nextProps)\<close> (lines 135-170). \<^verbatim>\<open>!==\<close> is \<open>strict_neq\<close> on
  the four props that hold primitive values; on the two sizes (natural numbers), on
  the two strings of \<^verbatim>\<open>scaleAsString\<close> and on the results of \<^verbatim>\<open>JSON.stringify\<close> (a
  string or \<^verbatim>\<open>undefined\<close>) it is inequality; on the two y scales it compares identities.
\<close>

definition shouldComponentUpdate :: "('n, 'c) libs \<Rightarrow> 'n props \<Rightarrow> 'n props \<Rightarrow> bool" where
  "shouldComponentUpdate E P nextProps =
     (let newSeries = series nextProps;
          oldSeries = series P;
          widthChanged = strict_neq (width P) (width nextProps);
          timeScaleChanged = (scaleAsString E (timeScale P) \<noteq> scaleAsString E (timeScale nextProps));
          yAxisScaleChanged = (scale_ref (yScale P) \<noteq> scale_ref (yScale nextProps));
          interpolationChanged = strict_neq (interpolation P) (interpolation nextProps);
          columnsChanged = (stringify_columns E (columns P) \<noteq> stringify_columns E (columns nextProps));
          styleChanged = (stringify_style E (style_prop P) \<noteq> stringify_style E (style_prop nextProps));
          highlightChanged = strict_neq (highlight P) (highlight nextProps);
          selectionChanged = strict_neq (selection P) (selection nextProps);
          seriesChanged =
            (if length oldSeries \<noteq> length newSeries then True
             else \<not> TimeSeries_is E oldSeries newSeries)
      in seriesChanged \<or>
         timeScaleChanged \<or>
         widthChanged \<or>
         interpolationChanged \<or>
         columnsChanged \<or>
         styleChanged \<or>
         yAxisScaleChanged \<or>
         highlightChanged \<or>
         selectionChanged)"

section \<open>Baseline\<close>

text \<open>
  The style of a baseline is an object with an optional \<^verbatim>\<open>label\<close> and an optional
  \<^verbatim>\<open>line\<close> (a field that is not there is \<^verbatim>\<open>undefined\<close>). \<^verbatim>\<open>baselineDefaultStyle\<close>
  (of \<^verbatim>\<open>./style\<close>, not among the sources) is such an object.
\<close>

record baseline_style =
  label_style :: jsval
  line_style :: jsval

text \<open>
  \<^verbatim>\<open>this.props\<close> of a Baseline. \<open>None\<close> is an absent (falsy) \<^verbatim>\<open>yScale\<close>, an
  undefined \<^verbatim>\<open>value\<close>.
\<close>

record 'n baseline_props =
  bl_yScale :: "('n, 'n) scale option"
  bl_value :: "'n option"
  bl_label :: string
  bl_position :: string
  bl_style :: baseline_style
  bl_width :: 'n

text \<open>
  The props as the caller writes them (\<open>None\<close> for a prop that is not given), and how
  React completes them with \<^verbatim>\<open>Baseline.defaultProps\<close> (Baseline.js, lines 48-53): a
  prop that is undefined takes its default.
\<close>

record 'n baseline_given =
  given_yScale :: "('n, 'n) scale option"
  given_value :: "'n option"
  given_label :: "string option"
  given_position :: "string option"
  given_style :: "baseline_style option"
  given_width :: 'n

definition with_defaultProps :: "baseline_style \<Rightarrow> 'n::zero baseline_given \<Rightarrow> 'n baseline_props" where
  "with_defaultProps baselineDefaultStyle A =
     \<lparr>bl_yScale = given_yScale A,
      bl_value = (case given_value A of None \<Rightarrow> Some 0 | Some v \<Rightarrow> Some v),
      bl_label = (case given_label A of None \<Rightarrow> [] | Some l \<Rightarrow> l),
      bl_position = (case given_position A of None \<Rightarrow> ''left'' | Some p \<Rightarrow> p),
      bl_style = (case given_style A of None \<Rightarrow> baselineDefaultStyle | Some s \<Rightarrow> s),
      bl_width = given_width A\<rparr>"

text \<open>
  What Baseline calls: \<^verbatim>\<open>_.merge\<close> of lodash, and the conversion of a number to a
  string that \<^verbatim>\<open>+\<close> applies beside a string.
\<close>

record 'n baseline_libs =
  lodash_merge :: "jsval \<Rightarrow> jsval \<Rightarrow> jsval"
  num_toString :: "'n \<Rightarrow> string"

text \<open>
  The element \<^verbatim>\<open>render\<close> returns: the \<^verbatim>\<open>g\<close> with its transform, the polyline with
  its points and style, and the text with its style, position, anchor and content.
  \<open>None\<close> is an attribute left \<^verbatim>\<open>undefined\<close>.
\<close>

record 'n baseline_element =
  className :: string
  transform :: string
  polyline_points :: string
  polyline_style :: jsval
  text_style :: jsval
  text_x :: "'n option"
  text_y :: 'n
  text_textAnchor :: "string option"
  text_children :: string

text \<open>
  \<^verbatim>\<open>Baseline.prototype.render\<close> (Baseline.js, lines 21-47). The test of its first line,
  \<^verbatim>\<open>!this.props.yScale || _.isUndefined(this.props.value)\<close>, is the case distinction:
  the render goes on when both props are there. \<^verbatim>\<open>_.merge\<close> writes into its first
  argument, which is a field of the shared \<^verbatim>\<open>baselineDefaultStyle\<close>: the function takes
  that object and returns it as the render leaves it, with the element, or \<open>None\<close> for
  \<^verbatim>\<open>null\<close>.
\<close>

definition Baseline_render ::
  "'n::{minus,uminus,numeral} baseline_libs \<Rightarrow> baseline_style \<Rightarrow> 'n baseline_props
     \<Rightarrow> baseline_style \<times> 'n baseline_element option" where
  "Baseline_render L baselineDefaultStyle P =
     (case (bl_yScale P, bl_value P) of
        (Some yScale', Some value') \<Rightarrow>
          let y = scale_fn yScale' value';
              transform' = ''translate(0 '' @ num_toString L y @ '')'';
              textPositionY = - 3;
              (textAnchor, textPositionX) =
                 (if bl_position P = ''left'' then (Some ''start'', Some 5) else (None, None));
              (textAnchor, textPositionX) =
                 (if bl_position P = ''right'' then (Some ''end'', Some (bl_width P - 5))
                  else (textAnchor, textPositionX));
              pts = [''0 0'', num_toString L (bl_width P) @ '' 0''];
              points' = pts ! 0 @ '' '' @ pts ! 1;
              labelStyle = lodash_merge L (label_style baselineDefaultStyle)
                 (if truthy (label_style (bl_style P)) then label_style (bl_style P) else JObj []);
              lineStyle = lodash_merge L (line_style baselineDefaultStyle)
                 (if truthy (line_style (bl_style P)) then line_style (bl_style P) else JObj [])
          in (\<lparr>label_style = labelStyle, line_style = lineStyle\<rparr>,
              Some \<lparr>className = ''baseline'', transform = transform',
                    polyline_points = points', polyline_style = lineStyle,
                    text_style = labelStyle, text_x = textPositionX, text_y = textPositionY,
                    text_textAnchor = textAnchor, text_children = bl_label P\<rparr>)
      | _ \<Rightarrow> (baselineDefaultStyle, None))"

section \<open>The words of the specification\<close>

text \<open>
  The variant among \<^verbatim>\<open>normal\<close>, \<^verbatim>\<open>highlighted\<close>, \<^verbatim>\<open>selected\<close> and \<^verbatim>\<open>muted\<close>
  that the specification gives a column: with a selection set, \<^verbatim>\<open>selected\<close> for the
  selected column, else \<^verbatim>\<open>highlighted\<close> for the highlighted one, else \<^verbatim>\<open>muted\<close>;
  with no selection, \<^verbatim>\<open>highlighted\<close> for the highlighted column, else \<^verbatim>\<open>normal\<close>.
  A prop is set when it is truthy. This definition is compared with \<open>style\<close> below.
\<close>

definition spec_variant :: "'n props \<Rightarrow> string \<Rightarrow> string" where
  "spec_variant P column =
     (if truthy_prim (selection P) then
        (if PStr column = selection P then ''selected''
         else if truthy_prim (highlight P) \<and> PStr column = highlight P then ''highlighted''
         else ''muted'')
      else if truthy_prim (highlight P) \<and> PStr column = highlight P then ''highlighted''
      else ''normal'')"

text \<open>
  The offset the specification gives a row before a column is drawn: the sum, from
  \<open>0\<close> and in the order of the list, of \<open>dir\<close> times the values of the earlier columns.
\<close>

definition spec_offset :: "'n::{zero,plus,times} \<Rightarrow> 'n event \<Rightarrow> string list \<Rightarrow> 'n" where
  "spec_offset dir ev earlier = foldl (\<lambda>s c. s + dir * get ev c) 0 earlier"

text \<open>
  The data point the specification gives row \<open>j\<close> of a column drawn after the columns
  \<open>earlier\<close>: with \<open>S\<close> the offset and \<open>v\<close> the value of the column at that row, the
  band runs from \<open>yScale(S)\<close> to \<open>yScale(S + dir * v)\<close>.
\<close>

definition spec_point :: "'n::{zero,plus,times} props \<Rightarrow> 'n \<Rightarrow> string list \<Rightarrow> string \<Rightarrow> nat \<Rightarrow> 'n point" where
  "spec_point P dir earlier column j =
     (let S = spec_offset dir (series P ! j) earlier;
          v = get (series P ! j) column
      in \<lparr>x0 = scale_fn (timeScale P) (timestamp (series P ! j)),
          y0 = scale_fn (yScale P) S,
          y1 = scale_fn (yScale P) (S + dir * v)\<rparr>)"


section \<open>A concrete chart\<close>

text \<open>
  Instances of the libraries and of the props, on which the functions above are
  evaluated: a merge that copies the first object and overrides it with the own
  properties of the second, generators that print the curve and the coordinates they
  are given, a comparison of series by their timestamps and the values of their two
  columns, and a series of two points with the columns \<^verbatim>\<open>in\<close> and \<^verbatim>\<open>out\<close>.
\<close>

definition show_int :: "int \<Rightarrow> string" where
  "show_int i = (if i < 0 then ''-'' @ show_nat (nat (- i)) else show_nat (nat i))"

fun merge_example :: "bool \<Rightarrow> jsval \<Rightarrow> jsval \<Rightarrow> jsval" where
  "merge_example clone (JObj xs) (JObj ys) =
     JObj (map (\<lambda>(k, v). (k, case map_of ys k of Some w \<Rightarrow> w | None \<Rightarrow> v)) xs @
           filter (\<lambda>(k, v). map_of xs k = None) ys)"
| "merge_example clone (JObj xs) b = JObj xs"
| "merge_example clone a (JObj ys) = JObj ys"
| "merge_example clone a b = JObj []"

definition lib0 :: "(int, string) libs" where
  "lib0 =
     \<lparr>merge = merge_example,
      d3_area = (\<lambda>c fx fy0 fy1 ds.
         c @ concat (map (\<lambda>p. '' '' @ show_int (fx p) @ '','' @ show_int (fy0 p) @ '','' @ show_int (fy1 p)) ds)),
      d3_line = (\<lambda>c fx fy ds.
         c @ concat (map (\<lambda>p. '' '' @ show_int (fx p) @ '','' @ show_int (fy p)) ds)),
      curves = (\<lambda>name. case name of PStr s \<Rightarrow> s | _ \<Rightarrow> ''undefined''),
      scaleAsString = (\<lambda>s. show_nat (scale_ref s)),
      TimeSeries_is = (\<lambda>a b. map (\<lambda>ev. (timestamp ev, get ev ''in'', get ev ''out'')) a =
                              map (\<lambda>ev. (timestamp ev, get ev ''in'', get ev ''out'')) b),
      stringify_columns = (\<lambda>c. Some (concat (case up c of Some l \<Rightarrow> l | None \<Rightarrow> []) @ ''/'' @
                                        concat (case down c of Some l \<Rightarrow> l | None \<Rightarrow> []))),
      stringify_style = (\<lambda>s. if truthy_style s then Some ''style'' else None)\<rparr>"

definition props0 :: "int props" where
  "props0 =
     \<lparr>series =
        [\<lparr>timestamp = 0, get = (\<lambda>c. if c = ''in'' then 3 else if c = ''out'' then 5 else 0)\<rparr>,
         \<lparr>timestamp = 60, get = (\<lambda>c. if c = ''in'' then 4 else if c = ''out'' then 1 else 0)\<rparr>],
      columns = \<lparr>up = Some [''in'', ''out''], down = Some [''out'']\<rparr>,
      style_prop = Plain JUndefined,
      interpolation = PStr ''curveLinear'',
      axis = ''traffic'',
      stack = Some True,
      highlight = PUndefined,
      selection = PUndefined,
      onHighlightChange = Some 1,
      onSelectionChange = None,
      width = PNum 600,
      timeScale = \<lparr>scale_ref = 1, scale_fn = (\<lambda>t. t div 10)\<rparr>,
      yScale = \<lparr>scale_ref = 2, scale_fn = (\<lambda>v. 100 - v)\<rparr>\<rparr>"

text \<open>A baseline at the value 30 on a chart 600 wide, with no position given.\<close>

definition baseline_libs0 :: "int baseline_libs" where
  "baseline_libs0 = \<lparr>lodash_merge = merge_example False, num_toString = show_int\<rparr>"

definition baseline_style0 :: baseline_style where
  "baseline_style0 =
     \<lparr>label_style = JObj [(''fill'', JStr ''#8B7E7E'')],
      line_style = JObj [(''stroke'', JStr ''#626262'')]\<rparr>"

definition baseline_given0 :: "int baseline_given" where
  "baseline_given0 =
     \<lparr>given_yScale = Some \<lparr>scale_ref = 2, scale_fn = (\<lambda>v. 100 - v)\<rparr>,
      given_value = Some 30,
      given_label = Some ''avg'',
      given_position = None,
      given_style = None,
      given_width = 600\<rparr>"



section \<open>Properties of the style resolution\<close>

text \<open>
  A property read succeeds on every value but \<^verbatim>\<open>undefined\<close> and \<^verbatim>\<open>null\<close>; the default
  style holds an object for each of the two types and each of the four variants; and
  \<open>style\<close> merges the variant that \<open>spec_variant\<close> names.
\<close>

lemma get_prop_not_null:
  "(\<exists>w. get_prop v k = Inr w) = (v \<noteq> JUndefined \<and> v \<noteq> JNull)"
  by (cases v) (auto split: option.splits)

lemma default_type_variant:
  assumes "type = ''line'' \<or> type = ''area''"
    and "V = ''normal'' \<or> V = ''highlighted'' \<or> V = ''selected'' \<or> V = ''muted''"
  shows "\<exists>dt kvs. get_prop defaultStyle type = Inr dt \<and> get_prop dt V = Inr (JObj kvs)"
  using assms by (auto simp: defaultStyle_def)

lemma spec_variant_cases:
  "spec_variant P column = ''normal'' \<or> spec_variant P column = ''highlighted'' \<or>
   spec_variant P column = ''selected'' \<or> spec_variant P column = ''muted''"
  by (simp add: spec_variant_def)

lemma style_snd:
  "providedAreaStyleMap P column = Inr styleMap \<Longrightarrow>
   snd (style E P column type) = merge_variant E styleMap type (spec_variant P column)"
  by (auto simp: style_def spec_variant_def Let_def)

lemma style_fst:
  "providedAreaStyleMap P column = Inr styleMap \<Longrightarrow>
   fst (style E P column type) =
     (if \<not> has styleMap ''line''
      then [[JStr ''Provided style for AreaChart does not define a style for the outline:'',
             styleMap, JStr column]]
      else []) @
     (if \<not> has styleMap ''area''
      then [[JStr ''Provided style for AreaChart does not define a style for the area:'',
             styleMap]]
      else [])"
  by (simp add: style_def Let_def)

lemma style_absent:
  assumes "\<not> truthy_style (style_prop P)" and "type = ''line'' \<or> type = ''area''"
  shows "\<exists>s. style E P column type = ([], Inr s)"
proof -
  have p: "providedAreaStyleMap P column = Inr defaultStyle"
    using assms(1) by (simp add: providedAreaStyleMap_def)
  obtain dt kvs where d: "get_prop defaultStyle type = Inr dt"
      "get_prop dt (spec_variant P column) = Inr (JObj kvs)"
    using default_type_variant [OF assms(2) spec_variant_cases] by blast
  have "snd (style E P column type) = Inr (merge E True (JObj kvs) (JObj kvs))"
    by (simp add: style_snd [OF p] merge_variant_def d)
  moreover have "fst (style E P column type) = []"
    by (simp add: style_fst [OF p] defaultStyle_def)
  ultimately show ?thesis by (cases "style E P column type") simp
qed

section \<open>Properties of the stacking loop\<close>

text \<open>
  The loop in closed form: started at row \<open>j\<close> on an array of offsets that has one
  entry per row, it pushes one point per remaining row and, when the chart is stacked,
  adds the column to the remaining offsets. Nothing else in the heap changes.
\<close>

lemma stack_loop_closed:
  assumes "offsets < length h" and "length (h ! offsets) = length (series P)"
    and "j \<le> length (series P)"
  shows "stack_loop P dir column offsets j h data =
    ((if stack P = Some True
      then h[offsets := take j (h ! offsets) @
             map (\<lambda>i. h ! offsets ! i + dir * get (series P ! i) column) [j..<length (series P)]]
      else h),
     data @ map (\<lambda>i. \<lparr>x0 = scale_fn (timeScale P) (timestamp (series P ! i)),
                      y0 = scale_fn (yScale P) (h ! offsets ! i),
                      y1 = scale_fn (yScale P) (h ! offsets ! i + dir * get (series P ! i) column)\<rparr>)
               [j..<length (series P)])"
  using assms
proof (induction P dir column offsets j h data rule: stack_loop.induct)
  case (1 P dir column offsets j h data)
  let ?n = "length (series P)"
  let ?os = "h ! offsets"
  show ?case
  proof (cases "j < ?n")
    case False
    with "1.prems" have "j = ?n" by simp
    with "1.prems" show ?thesis
      by (subst stack_loop.simps) simp
  next
    case True
    let ?v = "?os ! j + dir * get (series P ! j) column"
    let ?h' = "if stack P = Some True then h[offsets := ?os[j := ?v]] else h"
    let ?pt = "\<lparr>x0 = scale_fn (timeScale P) (timestamp (series P ! j)),
                y0 = scale_fn (yScale P) (?os ! j),
                y1 = scale_fn (yScale P) ?v\<rparr>"
    have step: "stack_loop P dir column offsets j h data =
                stack_loop P dir column offsets (j + 1) ?h' (data @ [?pt])"
      using True by (subst stack_loop.simps) (simp add: Let_def)
    have wf: "offsets < length ?h'" "length (?h' ! offsets) = ?n" "j + 1 \<le> ?n"
      using "1.prems" True by auto
    note IH = "1.IH" [OF True refl refl refl wf]
    have up: "[j..<?n] = j # [Suc j..<?n]"
      using True by (simp add: upt_conv_Cons)
    show ?thesis
    proof (cases "stack P = Some True")
      case False
      then show ?thesis
        unfolding step IH by (simp add: up)
    next
      case st: True
      have os': "?h' ! offsets = ?os[j := ?v]"
        using st "1.prems" by simp
      have tk: "take (Suc j) (?os[j := ?v]) = take j ?os @ [?v]"
        using True "1.prems" by (simp add: take_Suc_conv_app_nth)
      have nth': "\<And>i. i \<in> set [Suc j..<?n] \<Longrightarrow> ?os[j := ?v] ! i = ?os ! i"
        by simp
      have m1: "map (\<lambda>i. ?os[j := ?v] ! i + dir * get (series P ! i) column) [Suc j..<?n] =
                map (\<lambda>i. ?os ! i + dir * get (series P ! i) column) [Suc j..<?n]"
        by (rule map_cong [OF refl]) (simp add: nth')
      have m2: "map (\<lambda>i. \<lparr>x0 = scale_fn (timeScale P) (timestamp (series P ! i)),
                      y0 = scale_fn (yScale P) (?os[j := ?v] ! i),
                      y1 = scale_fn (yScale P) (?os[j := ?v] ! i + dir * get (series P ! i) column)\<rparr>)
                  [Suc j..<?n] =
                map (\<lambda>i. \<lparr>x0 = scale_fn (timeScale P) (timestamp (series P ! i)),
                      y0 = scale_fn (yScale P) (?os ! i),
                      y1 = scale_fn (yScale P) (?os ! i + dir * get (series P ! i) column)\<rparr>)
                  [Suc j..<?n]"
        by (rule map_cong [OF refl]) (simp add: nth')
      show ?thesis
        unfolding step IH os' using st by (simp add: up tk m1 m2)
    qed
  qed
qed

lemma stack_loop_from_0:
  assumes "offsets < length h" and "length (h ! offsets) = length (series P)"
  shows "stack_loop P dir column offsets 0 h [] =
    ((if stack P = Some True
      then h[offsets := map (\<lambda>i. h ! offsets ! i + dir * get (series P ! i) column) [0..<length (series P)]]
      else h),
     map (\<lambda>i. \<lparr>x0 = scale_fn (timeScale P) (timestamp (series P ! i)),
               y0 = scale_fn (yScale P) (h ! offsets ! i),
               y1 = scale_fn (yScale P) (h ! offsets ! i + dir * get (series P ! i) column)\<rparr>)
         [0..<length (series P)])"
  using stack_loop_closed [OF assms, of 0 dir column "[]"] by simp

text \<open>
  What the callback and the map over the columns return: the heap differs from the one
  they were given at the array of offsets only, there is one group per column, and the
  group of the column at index \<open>k\<close> is determined by the offsets the earlier columns left.
\<close>

lemma render_path_Inr:
  assumes "render_path E P dir offsets h column i = (h', c, Inr g)"
  shows "\<exists>c1 c2 sa sl.
           areaStyle E P column = (c1, Inr sa) \<and> pathStyle E P column = (c2, Inr sl) \<and>
           c = c1 @ c2 \<and>
           stack_loop P dir column offsets 0 h [] = (h', points g) \<and>
           g = \<lparr>key = ''area-'' @ show_nat i,
                points = points g,
                areaPath =
                  \<lparr>path_d = d3_area E (curves E (interpolation P)) x0 y0 y1 (points g),
                   path_style = sa,
                   onClick = (\<lambda>Q e. handleClick Q e column),
                   onMouseLeave = (\<lambda>Q e. handleHoverLeave Q),
                   onMouseMove = (\<lambda>Q e. handleHover Q e column)\<rparr>,
                outlinePath =
                  \<lparr>path_d = d3_line E (curves E (interpolation P)) x0 y1 (points g),
                   path_style = sl,
                   onClick = (\<lambda>Q e. handleClick Q e column),
                   onMouseLeave = (\<lambda>Q e. handleHoverLeave Q),
                   onMouseMove = (\<lambda>Q e. handleHover Q e column)\<rparr>\<rparr>"
  using assms
  by (auto simp: render_path_def Let_def split: prod.splits sum.splits)

lemma render_path_heap:
  assumes "render_path E P dir offsets h column i = (h', c, r)"
  shows "h' = h \<or> h' = fst (stack_loop P dir column offsets 0 h [])"
  using assms
  by (auto simp: render_path_def Let_def split: prod.splits sum.splits)



lemma map_paths_length:
  "map_paths E P dir offsets cols i h = (h', c, Inr gs) \<Longrightarrow> length gs = length cols"
proof (induction cols arbitrary: i h h' c gs)
  case Nil
  then show ?case by simp
next
  case (Cons column rest)
  then show ?case
    by (auto split: prod.splits sum.splits)
qed

lemma map_paths_Cons_Inr:
  assumes "map_paths E P dir offsets (column # rest) i h = (h', c, Inr gs)"
  shows "\<exists>h1 c1 g c2 gs'.
           render_path E P dir offsets h column i = (h1, c1, Inr g) \<and>
           map_paths E P dir offsets rest (i + 1) h1 = (h', c2, Inr gs') \<and>
           gs = g # gs' \<and> c = c1 @ c2"
  using assms by (auto split: prod.splits sum.splits)

lemma map_paths_nth:
  assumes "map_paths E P dir offsets cols i h = (h', c, Inr gs)" and "k < length cols"
  shows "\<exists>sa sl.
           snd (areaStyle E P (cols ! k)) = Inr sa \<and> snd (pathStyle E P (cols ! k)) = Inr sl \<and>
           gs ! k =
             \<lparr>key = ''area-'' @ show_nat (i + k),
              points = points (gs ! k),
              areaPath =
                \<lparr>path_d = d3_area E (curves E (interpolation P)) x0 y0 y1 (points (gs ! k)),
                 path_style = sa,
                 onClick = (\<lambda>Q e. handleClick Q e (cols ! k)),
                 onMouseLeave = (\<lambda>Q e. handleHoverLeave Q),
                 onMouseMove = (\<lambda>Q e. handleHover Q e (cols ! k))\<rparr>,
              outlinePath =
                \<lparr>path_d = d3_line E (curves E (interpolation P)) x0 y1 (points (gs ! k)),
                 path_style = sl,
                 onClick = (\<lambda>Q e. handleClick Q e (cols ! k)),
                 onMouseLeave = (\<lambda>Q e. handleHoverLeave Q),
                 onMouseMove = (\<lambda>Q e. handleHover Q e (cols ! k))\<rparr>\<rparr>"
  using assms
proof (induction cols arbitrary: i h c gs k)
  case Nil
  then show ?case by simp
next
  case (Cons column rest)
  from map_paths_Cons_Inr [OF Cons.prems(1)]
  obtain h1 c1 g c2 gs' where
    rp: "render_path E P dir offsets h column i = (h1, c1, Inr g)" and
    mp: "map_paths E P dir offsets rest (i + 1) h1 = (h', c2, Inr gs')" and
    gs: "gs = g # gs'"
    by blast
  show ?case
  proof (cases k)
    case 0
    from render_path_Inr [OF rp] show ?thesis
      unfolding 0 gs by (elim exE conjE) (simp del: area_group.ext_inject)
  next
    case (Suc k')
    with Cons.prems(2) have "k' < length rest" by simp
    from Cons.IH [OF mp this] show ?thesis
      unfolding Suc gs by simp
  qed
qed

lemma map_paths_points:
  assumes "map_paths E P dir offsets cols i h = (h', c, Inr gs)" and "k < length cols"
    and "offsets < length h" and "length (h ! offsets) = length (series P)"
  shows "points (gs ! k) =
     map (\<lambda>j. \<lparr>x0 = scale_fn (timeScale P) (timestamp (series P ! j)),
               y0 = scale_fn (yScale P)
                      (if stack P = Some True
                       then foldl (\<lambda>s c. s + dir * get (series P ! j) c) (h ! offsets ! j) (take k cols)
                       else h ! offsets ! j),
               y1 = scale_fn (yScale P)
                      ((if stack P = Some True
                        then foldl (\<lambda>s c. s + dir * get (series P ! j) c) (h ! offsets ! j) (take k cols)
                        else h ! offsets ! j) + dir * get (series P ! j) (cols ! k))\<rparr>)
         [0..<length (series P)]"
  using assms
proof (induction cols arbitrary: i h c gs k)
  case Nil
  then show ?case by simp
next
  case (Cons column rest)
  let ?n = "length (series P)"
  from map_paths_Cons_Inr [OF Cons.prems(1)]
  obtain h1 c1 g c2 gs' where
    rp: "render_path E P dir offsets h column i = (h1, c1, Inr g)" and
    mp: "map_paths E P dir offsets rest (i + 1) h1 = (h', c2, Inr gs')" and
    gs: "gs = g # gs'"
    by blast
  from render_path_Inr [OF rp]
  have sl: "stack_loop P dir column offsets 0 h [] = (h1, points g)" by blast
  note cl = stack_loop_from_0 [OF Cons.prems(3,4), of dir column]
  show ?case
  proof (cases k)
    case 0
    from sl cl have "points g =
        map (\<lambda>i. \<lparr>x0 = scale_fn (timeScale P) (timestamp (series P ! i)),
                  y0 = scale_fn (yScale P) (h ! offsets ! i),
                  y1 = scale_fn (yScale P) (h ! offsets ! i + dir * get (series P ! i) column)\<rparr>)
            [0..<?n]"
      by simp
    then show ?thesis unfolding 0 gs by simp
  next
    case (Suc k')
    with Cons.prems(2) have k': "k' < length rest" by simp
    have h1: "h1 = (if stack P = Some True
                    then h[offsets := map (\<lambda>i. h ! offsets ! i + dir * get (series P ! i) column) [0..<?n]]
                    else h)"
      using sl cl by simp
    have wf1: "offsets < length h1" "length (h1 ! offsets) = ?n"
      using h1 Cons.prems(3,4) by (simp_all del: upt.simps)
    have nth1: "\<And>j. j < ?n \<Longrightarrow> h1 ! offsets ! j =
                  (if stack P = Some True then h ! offsets ! j + dir * get (series P ! j) column
                   else h ! offsets ! j)"
      using h1 Cons.prems(3) by (simp del: upt.simps)
    show ?thesis
      unfolding Suc gs nth_Cons_Suc Cons.IH [OF mp k' wf1]
      by (rule map_cong [OF refl]) (simp add: nth1)
  qed
qed

lemma renderPaths_eq:
  "renderPaths E P h cols direction =
     map_paths E P (if direction = ''up'' then 1 else - 1) (length h) cols 0
       (h @ [replicate (length (series P)) 0])"
  by (simp add: renderPaths_def new_Array_fill_def Let_def)

lemma renderPaths_points:
  assumes "renderPaths E P h cols direction = (h', c, Inr gs)" and "k < length cols"
  shows "points (gs ! k) =
     map (spec_point P (if direction = ''up'' then 1 else - 1)
            (if stack P = Some True then take k cols else []) (cols ! k))
         [0..<length (series P)]"
proof -
  let ?dir = "if direction = ''up'' then 1 else - 1 :: 'a"
  let ?h0 = "h @ [replicate (length (series P)) (0::'a)]"
  have mp: "map_paths E P ?dir (length h) cols 0 ?h0 = (h', c, Inr gs)"
    using assms(1) by (simp add: renderPaths_eq)
  have wf: "length h < length ?h0" "length (?h0 ! length h) = length (series P)"
    by simp_all
  show ?thesis
    unfolding map_paths_points [OF mp assms(2) wf]
    by (rule map_cong [OF refl]) (simp add: spec_point_def spec_offset_def Let_def)
qed

lemma renderPaths_length:
  "renderPaths E P h cols direction = (h', c, Inr gs) \<Longrightarrow> length gs = length cols"
  by (simp add: renderPaths_eq map_paths_length)

lemma renderPaths_nth:
  assumes "renderPaths E P h cols direction = (h', c, Inr gs)" and "k < length cols"
  shows "key (gs ! k) = ''area-'' @ show_nat k \<and>
         (\<exists>sa. snd (areaStyle E P (cols ! k)) = Inr sa \<and>
            areaPath (gs ! k) =
              \<lparr>path_d = d3_area E (curves E (interpolation P)) x0 y0 y1 (points (gs ! k)),
               path_style = sa,
               onClick = (\<lambda>Q e. handleClick Q e (cols ! k)),
               onMouseLeave = (\<lambda>Q e. handleHoverLeave Q),
               onMouseMove = (\<lambda>Q e. handleHover Q e (cols ! k))\<rparr>) \<and>
         (\<exists>sl. snd (pathStyle E P (cols ! k)) = Inr sl \<and>
            outlinePath (gs ! k) =
              \<lparr>path_d = d3_line E (curves E (interpolation P)) x0 y1 (points (gs ! k)),
               path_style = sl,
               onClick = (\<lambda>Q e. handleClick Q e (cols ! k)),
               onMouseLeave = (\<lambda>Q e. handleHoverLeave Q),
               onMouseMove = (\<lambda>Q e. handleHover Q e (cols ! k))\<rparr>)"
proof -
  have mp: "map_paths E P (if direction = ''up'' then 1 else - 1) (length h) cols 0
              (h @ [replicate (length (series P)) 0]) = (h', c, Inr gs)"
    using assms(1) by (simp add: renderPaths_eq)
  from map_paths_nth [OF mp assms(2)] obtain sa sl where
    s: "snd (areaStyle E P (cols ! k)) = Inr sa" "snd (pathStyle E P (cols ! k)) = Inr sl" and
    g: "gs ! k =
             \<lparr>key = ''area-'' @ show_nat (0 + k),
              points = points (gs ! k),
              areaPath =
                \<lparr>path_d = d3_area E (curves E (interpolation P)) x0 y0 y1 (points (gs ! k)),
                 path_style = sa,
                 onClick = (\<lambda>Q e. handleClick Q e (cols ! k)),
                 onMouseLeave = (\<lambda>Q e. handleHoverLeave Q),
                 onMouseMove = (\<lambda>Q e. handleHover Q e (cols ! k))\<rparr>,
              outlinePath =
                \<lparr>path_d = d3_line E (curves E (interpolation P)) x0 y1 (points (gs ! k)),
                 path_style = sl,
                 onClick = (\<lambda>Q e. handleClick Q e (cols ! k)),
                 onMouseLeave = (\<lambda>Q e. handleHoverLeave Q),
                 onMouseMove = (\<lambda>Q e. handleHover Q e (cols ! k))\<rparr>\<rparr>"
    by blast
  have "key (gs ! k) = ''area-'' @ show_nat k"
    by (subst g) simp
  moreover have "areaPath (gs ! k) =
              \<lparr>path_d = d3_area E (curves E (interpolation P)) x0 y0 y1 (points (gs ! k)),
               path_style = sa,
               onClick = (\<lambda>Q e. handleClick Q e (cols ! k)),
               onMouseLeave = (\<lambda>Q e. handleHoverLeave Q),
               onMouseMove = (\<lambda>Q e. handleHover Q e (cols ! k))\<rparr>"
    by (subst g) simp
  moreover have "outlinePath (gs ! k) =
              \<lparr>path_d = d3_line E (curves E (interpolation P)) x0 y1 (points (gs ! k)),
               path_style = sl,
               onClick = (\<lambda>Q e. handleClick Q e (cols ! k)),
               onMouseLeave = (\<lambda>Q e. handleHoverLeave Q),
               onMouseMove = (\<lambda>Q e. handleHover Q e (cols ! k))\<rparr>"
    by (subst g) simp
  ultimately show ?thesis using s by blast
qed

lemma renderAreas_Inr:
  assumes "renderAreas E P h = (h2, c, Inr el)"
  shows "\<exists>h1 c1 c2 ups downs.
           renderPaths E P h (up_columns P) ''up'' = (h1, c1, Inr ups) \<and>
           renderPaths E P h1 (down_columns P) ''down'' = (h2, c2, Inr downs) \<and>
           el = G [Paths ups, Paths downs] \<and> c = c1 @ c2"
  using assms by (auto simp: renderAreas_def Let_def split: prod.splits sum.splits)

lemma map_paths_unstacked:
  assumes "stack P \<noteq> Some True"
    and "offsets < length h" and "length (h ! offsets) = length (series P)"
  shows "fst (map_paths E P dir offsets cols i h) = h"
proof (induction cols arbitrary: i)
  case Nil
  show ?case by simp
next
  case (Cons column rest)
  obtain h1 c1 r1 where rp: "render_path E P dir offsets h column i = (h1, c1, r1)"
    by (cases "render_path E P dir offsets h column i") auto
  have h1: "h1 = h"
    using render_path_heap [OF rp] assms by (auto simp: stack_loop_from_0)
  show ?case
  proof (cases r1)
    case (Inl e)
    then show ?thesis by (simp add: rp h1)
  next
    case (Inr g)
    obtain h2 c2 r2 where mp: "map_paths E P dir offsets rest (i + 1) h = (h2, c2, r2)"
      by (cases "map_paths E P dir offsets rest (i + 1) h") auto
    from Cons.IH [of "i + 1"] mp have "h2 = h" by simp
    then show ?thesis using rp h1 Inr mp by (cases r2) simp_all
  qed
qed

text \<open>With no style prop no style throws, so every column is rendered.\<close>

lemma render_path_default:
  assumes "\<not> truthy_style (style_prop P)"
  shows "\<exists>h' g. render_path E P dir offsets h column i = (h', [], Inr g)"
proof -
  obtain sa where a: "areaStyle E P column = ([], Inr sa)"
    using style_absent [OF assms, of "''area''"] by (auto simp: areaStyle_def)
  obtain sl where l: "pathStyle E P column = ([], Inr sl)"
    using style_absent [OF assms, of "''line''"] by (auto simp: pathStyle_def)
  show ?thesis
    by (simp add: render_path_def a l Let_def split: prod.splits)
qed

lemma map_paths_default:
  assumes "\<not> truthy_style (style_prop P)"
  shows "\<exists>h' gs. map_paths E P dir offsets cols i h = (h', [], Inr gs)"
proof (induction cols arbitrary: i h)
  case Nil
  show ?case by simp
next
  case (Cons column rest)
  obtain h1 g where rp: "render_path E P dir offsets h column i = (h1, [], Inr g)"
    using render_path_default [OF assms] by blast
  obtain h2 gs where mp: "map_paths E P dir offsets rest (i + 1) h1 = (h2, [], Inr gs)"
    using Cons.IH by blast
  show ?case using rp mp by simp
qed

lemma renderPaths_default:
  assumes "\<not> truthy_style (style_prop P)"
  shows "\<exists>h' gs. renderPaths E P h cols direction = (h', [], Inr gs)"
  unfolding renderPaths_eq by (rule map_paths_default [OF assms])

section \<open>The render as a function of the props\<close>













section \<open>The render on a store and the render on values\<close>


lemma read_props_numbers [simp]:
  "read_props (S\<lparr>number_arrays := h\<rparr>) R P = read_props S R P"
  by (simp add: read_props_def)












section \<open>The concrete chart, evaluated\<close>

lemma show_small [simp]:
  "show_nat 0 = ''0''" "show_nat 6 = ''6''" "show_nat 92 = ''92''" "show_nat 95 = ''95''"
  "show_nat 96 = ''96''" "show_nat 97 = ''97''"
  by (simp_all add: show_nat.simps)

lemma props0_fields:
  "series props0 =
     [\<lparr>timestamp = 0, get = (\<lambda>c. if c = ''in'' then 3 else if c = ''out'' then 5 else 0)\<rparr>,
      \<lparr>timestamp = 60, get = (\<lambda>c. if c = ''in'' then 4 else if c = ''out'' then 1 else 0)\<rparr>]"
  "scale_fn (timeScale props0) = (\<lambda>t. t div 10)"
  "scale_fn (yScale props0) = (\<lambda>v. 100 - v)"
  "stack props0 = Some True"
  "style_prop props0 = Plain JUndefined"
  "interpolation props0 = PStr ''curveLinear''"
  "onHighlightChange props0 = Some 1"
  "onSelectionChange props0 = None"
  by (simp_all add: props0_def)

section \<open>The claims\<close>

text \<open>
  Claim C1. For every series, every list of columns and every direction, when the
  \<^verbatim>\<open>stack\<close> prop is true, \<^verbatim>\<open>renderPaths\<close> builds one group per column, each with one
  data point per row of the series, and the point of the \<open>k\<close>-th column at row \<open>j\<close> has
  \<open>y0 = yScale(S)\<close> and \<open>y1 = yScale(S + dir * v)\<close>, where \<open>dir\<close> is \<open>1\<close> for the direction
  \<^verbatim>\<open>up\<close> and \<open>- 1\<close> otherwise, \<open>v\<close> is the value of the column at that row and \<open>S\<close> is the
  sum, from \<open>0\<close>, of \<open>dir\<close> times the values at that row of the columns at the indices
  \<open>0..k-1\<close> of the same list. The array of offsets is allocated anew, filled with
  zeros, by each call, whatever the heap holds: in \<^verbatim>\<open>renderAreas\<close> the columns going up
  are stacked from \<open>0\<close> with \<open>dir = 1\<close> and the columns going down from \<open>0\<close> with
  \<open>dir = - 1\<close>, each list on its own. The groups are returned whenever no style throws,
  as is the case when there is no style prop.
\<close>

theorem renderPaths_stacked_points:
  assumes "stack P = Some True"
  shows "(renderPaths E P h columnList direction = (h', c, Inr gs) \<longrightarrow>
            length gs = length columnList \<and>
            (\<forall>k j. k < length columnList \<and> j < length (series P) \<longrightarrow>
               length (points (gs ! k)) = length (series P) \<and>
               points (gs ! k) ! j =
                 spec_point P (if direction = ''up'' then 1 else - 1)
                   (take k columnList) (columnList ! k) j)) \<and>
         (renderAreas E P h = (h2, c2, Inr el) \<longrightarrow>
            (\<exists>ups downs. el = G [Paths ups, Paths downs] \<and>
               (\<forall>k j. k < length (up_columns P) \<and> j < length (series P) \<longrightarrow>
                  points (ups ! k) ! j =
                    spec_point P 1 (take k (up_columns P)) (up_columns P ! k) j) \<and>
               (\<forall>k j. k < length (down_columns P) \<and> j < length (series P) \<longrightarrow>
                  points (downs ! k) ! j =
                    spec_point P (- 1) (take k (down_columns P)) (down_columns P ! k) j))) \<and>
         (\<not> truthy_style (style_prop P) \<longrightarrow>
            (\<exists>h' gs. renderPaths E P h columnList direction = (h', [], Inr gs)))"
proof (intro conjI impI)
  assume r: "renderPaths E P h columnList direction = (h', c, Inr gs)"
  show "length gs = length columnList"
    by (rule renderPaths_length [OF r])
  show "\<forall>k j. k < length columnList \<and> j < length (series P) \<longrightarrow>
               length (points (gs ! k)) = length (series P) \<and>
               points (gs ! k) ! j =
                 spec_point P (if direction = ''up'' then 1 else - 1)
                   (take k columnList) (columnList ! k) j"
    using assms by (auto simp: renderPaths_points [OF r] simp del: upt.simps)
next
  assume "renderAreas E P h = (h2, c2, Inr el)"
  from renderAreas_Inr [OF this]
  obtain h1 c1 c3 ups downs where
    u: "renderPaths E P h (up_columns P) ''up'' = (h1, c1, Inr ups)" and
    d: "renderPaths E P h1 (down_columns P) ''down'' = (h2, c3, Inr downs)" and
    el: "el = G [Paths ups, Paths downs]"
    by blast
  have "\<forall>k j. k < length (up_columns P) \<and> j < length (series P) \<longrightarrow>
          points (ups ! k) ! j =
            spec_point P 1 (take k (up_columns P)) (up_columns P ! k) j"
    using assms by (auto simp: renderPaths_points [OF u] simp del: upt.simps)
  moreover
  have "\<forall>k j. k < length (down_columns P) \<and> j < length (series P) \<longrightarrow>
          points (downs ! k) ! j =
            spec_point P (- 1) (take k (down_columns P)) (down_columns P ! k) j"
    using assms by (auto simp: renderPaths_points [OF d] simp del: upt.simps)
  ultimately
  show "\<exists>ups downs. el = G [Paths ups, Paths downs] \<and>
          (\<forall>k j. k < length (up_columns P) \<and> j < length (series P) \<longrightarrow>
             points (ups ! k) ! j =
               spec_point P 1 (take k (up_columns P)) (up_columns P ! k) j) \<and>
          (\<forall>k j. k < length (down_columns P) \<and> j < length (series P) \<longrightarrow>
             points (downs ! k) ! j =
               spec_point P (- 1) (take k (down_columns P)) (down_columns P ! k) j)"
    using el by blast
next
  assume "\<not> truthy_style (style_prop P)"
  then show "\<exists>h' gs. renderPaths E P h columnList direction = (h', [], Inr gs)"
    by (rule renderPaths_default)
qed

text \<open>
  On the concrete chart, the second column going up starts where the first one ends:
  at row 0 from \<open>100 - 3\<close> to \<open>100 - (3 + 5)\<close>.
\<close>

theorem renderPaths_stacked_points_witness:
  "stack props0 = Some True \<and>
   (\<exists>h' c gs. renderPaths lib0 props0 [] [''in'', ''out''] ''up'' = (h', c, Inr gs) \<and>
      length gs = 2 \<and>
      points (gs ! 1) ! 0 = \<lparr>x0 = 0, y0 = 97, y1 = 92\<rparr> \<and>
      points (gs ! 1) ! 1 = \<lparr>x0 = 6, y0 = 96, y1 = 95\<rparr>)"
proof -
  have s: "stack props0 = Some True"
    by (simp add: props0_fields)
  obtain h' gs where r: "renderPaths lib0 props0 [] [''in'', ''out''] ''up'' = (h', [], Inr gs)"
    using renderPaths_default [of props0 lib0 "[]" "[''in'', ''out'']" "''up''"]
    by (auto simp: props0_fields)
  from renderPaths_stacked_points [OF s, of lib0 "[]" "[''in'', ''out'']" "''up''" h' "[]" gs] r
  have "length gs = 2 \<and>
      points (gs ! 1) ! 0 = \<lparr>x0 = 0, y0 = 97, y1 = 92\<rparr> \<and>
      points (gs ! 1) ! 1 = \<lparr>x0 = 6, y0 = 96, y1 = 95\<rparr>"
    by (simp add: spec_point_def spec_offset_def props0_fields Let_def)
  with s r show ?thesis by blast
qed

text \<open>
  Claim C2, as the code has it. For every column and every type among \<^verbatim>\<open>line\<close> and
  \<^verbatim>\<open>area\<close>, when the style map resolved for the column holds, under the key of the
  type, a value whose properties can be read (any value but \<^verbatim>\<open>undefined\<close> and
  \<^verbatim>\<open>null\<close>), \<^verbatim>\<open>style(column, type)\<close> returns \<^verbatim>\<open>merge(true, d, s)\<close>, where \<open>d\<close> is the
  default style of the type for one of the four variants and \<open>s\<close> is what the caller
  supplied for that variant, or the empty object when that is absent (or otherwise
  falsy). The variant is the one \<open>spec_variant\<close> names: with a selection set,
  \<^verbatim>\<open>selected\<close> for the selected column, else \<^verbatim>\<open>highlighted\<close> for the highlighted column,
  else \<^verbatim>\<open>muted\<close>; with no selection, \<^verbatim>\<open>highlighted\<close> for the highlighted column, else
  \<^verbatim>\<open>normal\<close>.
\<close>

theorem style_resolves_variant:
  assumes "type = ''line'' \<or> type = ''area''"
    and "providedAreaStyleMap P column = Inr styleMap"
    and "get_prop styleMap type = Inr st"
    and "get_prop st (spec_variant P column) = Inr sv"
  shows "\<exists>dt dv. get_prop defaultStyle type = Inr dt \<and>
           get_prop dt (spec_variant P column) = Inr dv \<and>
           snd (style E P column type) =
             Inr (merge E True dv (if truthy sv then sv else JObj []))"
proof -
  obtain dt kvs where d: "get_prop defaultStyle type = Inr dt"
      "get_prop dt (spec_variant P column) = Inr (JObj kvs)"
    using default_type_variant [OF assms(1) spec_variant_cases] by blast
  have "snd (style E P column type) = merge_variant E styleMap type (spec_variant P column)"
    by (rule style_snd [OF assms(2)])
  also have "\<dots> = Inr (merge E True (JObj kvs) (if truthy sv then sv else JObj []))"
    by (simp add: merge_variant_def d assms(3,4))
  finally show ?thesis using d by blast
qed

text \<open>
  A style that gives the outline of the column \<^verbatim>\<open>in\<close> a red stroke: the normal
  variant of the default outline, with the stroke overridden.
\<close>

theorem style_resolves_variant_witness:
  "snd (style lib0
          (props0\<lparr>style_prop := Plain (JObj [(''in'', JObj
             [(''line'', JObj [(''normal'', JObj [(''stroke'', JStr ''red'')])]),
              (''area'', JObj [])])])\<rparr>)
          ''in'' ''line'') =
     Inr (JObj [(''stroke'', JStr ''red''), (''fill'', JStr ''none''), (''strokeWidth'', JNum 1)])"
proof -
  let ?sm = "JObj [(''line'', JObj [(''normal'', JObj [(''stroke'', JStr ''red'')])]),
                   (''area'', JObj [])]"
  let ?P = "props0\<lparr>style_prop := Plain (JObj [(''in'', ?sm)])\<rparr>"
  have p: "providedAreaStyleMap ?P ''in'' = Inr ?sm"
    by (simp add: providedAreaStyleMap_def)
  have v: "spec_variant ?P ''in'' = ''normal''"
    by (simp add: spec_variant_def props0_def)
  have t: "get_prop ?sm ''line'' = Inr (JObj [(''normal'', JObj [(''stroke'', JStr ''red'')])])"
    by simp
  have s: "get_prop (JObj [(''normal'', JObj [(''stroke'', JStr ''red'')])]) (spec_variant ?P ''in'') =
           Inr (JObj [(''stroke'', JStr ''red'')])"
    by (simp add: v)
  have m: "merge lib0 = merge_example"
    by (simp add: lib0_def)
  from style_resolves_variant [OF _ p t s, of lib0]
  show ?thesis
    by (auto simp: v m defaultStyle_def)
qed

text \<open>
  Without the condition on the style map the statement fails: with a style prop that
  is an object with no entry for the column, \<^verbatim>\<open>style\<close> writes its two messages and
  throws, where the claim has it return the default merged with the empty object.
\<close>

theorem style_missing_column_throws:
  "style lib0 (props0\<lparr>style_prop := Plain (JObj [])\<rparr>) ''in'' ''line'' =
     ([[JStr ''Provided style for AreaChart does not define a style for the outline:'',
        JUndefined, JStr ''in''],
       [JStr ''Provided style for AreaChart does not define a style for the area:'',
        JUndefined]],
      Inl TypeError)"
  by (simp add: style_def providedAreaStyleMap_def merge_variant_def defaultStyle_def props0_def)

text \<open>
  Claim C3, as the code has it. For every column whose style map is resolved and every
  type among \<^verbatim>\<open>line\<close> and \<^verbatim>\<open>area\<close>, \<^verbatim>\<open>style(column, type)\<close> writes to the console
  exactly when the style map lacks the key \<^verbatim>\<open>line\<close> or lacks the key \<^verbatim>\<open>area\<close> (one
  message for each key that is missing, in that order). It then returns a merged style
  exactly when the style map holds, under the key of the requested type, a value other
  than \<^verbatim>\<open>undefined\<close> and \<^verbatim>\<open>null\<close>; in every other case it throws a TypeError.
\<close>

theorem style_console_messages:
  assumes "type = ''line'' \<or> type = ''area''"
    and "providedAreaStyleMap P column = Inr styleMap"
  shows "(fst (style E P column type) \<noteq> []) = (\<not> has styleMap ''line'' \<or> \<not> has styleMap ''area'') \<and>
         fst (style E P column type) =
           (if \<not> has styleMap ''line''
            then [[JStr ''Provided style for AreaChart does not define a style for the outline:'',
                   styleMap, JStr column]]
            else []) @
           (if \<not> has styleMap ''area''
            then [[JStr ''Provided style for AreaChart does not define a style for the area:'',
                   styleMap]]
            else []) \<and>
         ((\<exists>s. snd (style E P column type) = Inr s) =
            (\<exists>st. get_prop styleMap type = Inr st \<and> st \<noteq> JUndefined \<and> st \<noteq> JNull)) \<and>
         ((snd (style E P column type) = Inl TypeError) =
            (\<not> (\<exists>st. get_prop styleMap type = Inr st \<and> st \<noteq> JUndefined \<and> st \<noteq> JNull)))"
proof -
  obtain dt kvs where d: "get_prop defaultStyle type = Inr dt"
      "get_prop dt (spec_variant P column) = Inr (JObj kvs)"
    using default_type_variant [OF assms(1) spec_variant_cases] by blast
  have s: "snd (style E P column type) = merge_variant E styleMap type (spec_variant P column)"
    by (rule style_snd [OF assms(2)])
  have m: "(fst (style E P column type) \<noteq> []) = (\<not> has styleMap ''line'' \<or> \<not> has styleMap ''area'') \<and>
         fst (style E P column type) =
           (if \<not> has styleMap ''line''
            then [[JStr ''Provided style for AreaChart does not define a style for the outline:'',
                   styleMap, JStr column]]
            else []) @
           (if \<not> has styleMap ''area''
            then [[JStr ''Provided style for AreaChart does not define a style for the area:'',
                   styleMap]]
            else [])"
    by (simp add: style_fst [OF assms(2)])
  show ?thesis
  proof (cases "get_prop styleMap type")
    case (Inl e)
    then show ?thesis using m by (cases e) (simp add: s merge_variant_def d)
  next
    case (Inr st)
    show ?thesis
    proof (cases "st = JUndefined \<or> st = JNull")
      case True
      then have "get_prop st (spec_variant P column) = Inl TypeError" by auto
      then show ?thesis using m Inr True by (simp add: s merge_variant_def d)
    next
      case False
      then obtain sv where "get_prop st (spec_variant P column) = Inr sv"
        using get_prop_not_null by blast
      then show ?thesis using m Inr False by (simp add: s merge_variant_def d)
    qed
  qed
qed

text \<open>
  A style map with the key \<^verbatim>\<open>line\<close> only: asked for the outline, \<^verbatim>\<open>style\<close> writes a
  message and returns a style.
\<close>

theorem style_console_messages_witness:
  "fst (style lib0 (props0\<lparr>style_prop := Plain (JObj [(''in'', JObj [(''line'', JObj [])])])\<rparr>)
          ''in'' ''line'') \<noteq> [] \<and>
   (\<exists>s. snd (style lib0 (props0\<lparr>style_prop := Plain (JObj [(''in'', JObj [(''line'', JObj [])])])\<rparr>)
          ''in'' ''line'') = Inr s)"
proof -
  let ?P = "props0\<lparr>style_prop := Plain (JObj [(''in'', JObj [(''line'', JObj [])])])\<rparr>"
  have p: "providedAreaStyleMap ?P ''in'' = Inr (JObj [(''line'', JObj [])])"
    by (simp add: providedAreaStyleMap_def)
  from style_console_messages [OF _ p, of "''line''" lib0]
  show ?thesis by simp
qed

text \<open>
  The same style map, asked for the area: \<^verbatim>\<open>style\<close> writes its message and then
  throws, where the claim has it return a merged style in all cases.
\<close>

theorem style_missing_area_throws:
  "style lib0 (props0\<lparr>style_prop := Plain (JObj [(''in'', JObj [(''line'', JObj [])])])\<rparr>)
     ''in'' ''area'' =
     ([[JStr ''Provided style for AreaChart does not define a style for the area:'',
        JObj [(''line'', JObj [])]]],
      Inl TypeError)"
  by (simp add: style_def providedAreaStyleMap_def merge_variant_def defaultStyle_def props0_def)

text \<open>
  Claim C4. When the \<^verbatim>\<open>stack\<close> prop is falsy, \<^verbatim>\<open>renderPaths\<close> leaves the array of
  offsets it allocated filled with zeros (and the rest of the heap as it was), and every
  data point of every column has \<open>y0 = yScale(0)\<close> and \<open>y1 = yScale(0 + dir * v)\<close>: each
  area is drawn from the axis.
\<close>

theorem renderPaths_unstacked_from_axis:
  assumes "stack P \<noteq> Some True"
  shows "fst (renderPaths E P h columnList direction) = h @ [replicate (length (series P)) 0] \<and>
         (renderPaths E P h columnList direction = (h', c, Inr gs) \<longrightarrow>
            (\<forall>k j. k < length columnList \<and> j < length (series P) \<longrightarrow>
               y0 (points (gs ! k) ! j) = scale_fn (yScale P) 0 \<and>
               y1 (points (gs ! k) ! j) =
                 scale_fn (yScale P)
                   (0 + (if direction = ''up'' then 1 else - 1) * get (series P ! j) (columnList ! k))))"
proof (intro conjI impI)
  show "fst (renderPaths E P h columnList direction) = h @ [replicate (length (series P)) 0]"
    unfolding renderPaths_eq by (rule map_paths_unstacked [OF assms]) simp_all
next
  assume r: "renderPaths E P h columnList direction = (h', c, Inr gs)"
  show "\<forall>k j. k < length columnList \<and> j < length (series P) \<longrightarrow>
               y0 (points (gs ! k) ! j) = scale_fn (yScale P) 0 \<and>
               y1 (points (gs ! k) ! j) =
                 scale_fn (yScale P)
                   (0 + (if direction = ''up'' then 1 else - 1) * get (series P ! j) (columnList ! k))"
    using assms
    by (auto simp: renderPaths_points [OF r] spec_point_def spec_offset_def simp del: upt.simps)
qed

text \<open>On the concrete chart without \<^verbatim>\<open>stack\<close>, the second column starts at \<open>yScale(0) = 100\<close>.\<close>

theorem renderPaths_unstacked_from_axis_witness:
  "stack (props0\<lparr>stack := None\<rparr>) \<noteq> Some True \<and>
   (\<exists>h' c gs. renderPaths lib0 (props0\<lparr>stack := None\<rparr>) [] [''in'', ''out''] ''up'' = (h', c, Inr gs) \<and>
      h' = [[0, 0]] \<and>
      y0 (points (gs ! 1) ! 0) = 100 \<and> y1 (points (gs ! 1) ! 0) = 95)"
proof -
  let ?P = "props0\<lparr>stack := None\<rparr>"
  have s: "stack ?P \<noteq> Some True"
    by simp
  obtain h' gs where r: "renderPaths lib0 ?P [] [''in'', ''out''] ''up'' = (h', [], Inr gs)"
    using renderPaths_default [of ?P lib0 "[]" "[''in'', ''out'']" "''up''"]
    by (auto simp: props0_fields)
  from renderPaths_unstacked_from_axis [OF s, of lib0 "[]" "[''in'', ''out'']" "''up''" h' "[]" gs] r
  have "h' = [[0, 0]] \<and>
      y0 (points (gs ! 1) ! 0) = 100 \<and> y1 (points (gs ! 1) ! 0) = 95"
    by (simp add: props0_fields)
  with s r show ?thesis by blast
qed

text \<open>
  Claim C5, as the code has it. For each of the two paths rendered for a column,
  whatever the props are when the event arrives: a mouse move calls
  \<^verbatim>\<open>onHighlightChange\<close> with the column, and a mouse leave calls it with \<^verbatim>\<open>null\<close>, when
  that prop is given, and they do nothing when it is not; a click first stops the
  propagation of the event, in every case, and then calls \<^verbatim>\<open>onSelectionChange\<close> with
  the column when that prop is given, and does nothing more when it is not. No handler
  raises an error.
\<close>

theorem rendered_paths_handlers:
  assumes "renderPaths E P h columnList direction = (h', c, Inr gs)"
    and "k < length columnList"
    and "p = areaPath (gs ! k) \<or> p = outlinePath (gs ! k)"
  shows "onMouseMove p Q e =
           (case onHighlightChange Q of Some f \<Rightarrow> [Invoke f (Some (columnList ! k))] | None \<Rightarrow> []) \<and>
         onMouseLeave p Q e =
           (case onHighlightChange Q of Some f \<Rightarrow> [Invoke f None] | None \<Rightarrow> []) \<and>
         onClick p Q e =
           StopPropagation e #
           (case onSelectionChange Q of Some f \<Rightarrow> [Invoke f (Some (columnList ! k))] | None \<Rightarrow> [])"
  using renderPaths_nth [OF assms(1,2)] assms(3)
  by (auto simp: handleHover_def handleHoverLeave_def handleClick_def)

text \<open>The handlers of the second column going down, on the concrete chart.\<close>

theorem rendered_paths_handlers_witness:
  "\<exists>h' c gs. renderPaths lib0 props0 [] [''in'', ''out''] ''down'' = (h', c, Inr gs) \<and>
      onMouseMove (areaPath (gs ! 1)) props0 7 = [Invoke 1 (Some ''out'')] \<and>
      onMouseLeave (outlinePath (gs ! 1)) props0 7 = [Invoke 1 None] \<and>
      onClick (areaPath (gs ! 1)) (props0\<lparr>onSelectionChange := Some 2\<rparr>) 7 =
        [StopPropagation 7, Invoke 2 (Some ''out'')]"
proof -
  obtain h' gs where r: "renderPaths lib0 props0 [] [''in'', ''out''] ''down'' = (h', [], Inr gs)"
    using renderPaths_default [of props0 lib0 "[]" "[''in'', ''out'']" "''down''"]
    by (auto simp: props0_fields)
  have k: "1 < length [''in'', ''out'']"
    by simp
  from rendered_paths_handlers [OF r k, of "areaPath (gs ! 1)" props0 7]
    rendered_paths_handlers [OF r k, of "outlinePath (gs ! 1)" props0 7]
    rendered_paths_handlers [OF r k, of "areaPath (gs ! 1)" "props0\<lparr>onSelectionChange := Some 2\<rparr>" 7]
  have "onMouseMove (areaPath (gs ! 1)) props0 7 = [Invoke 1 (Some ''out'')] \<and>
      onMouseLeave (outlinePath (gs ! 1)) props0 7 = [Invoke 1 None] \<and>
      onClick (areaPath (gs ! 1)) (props0\<lparr>onSelectionChange := Some 2\<rparr>) 7 =
        [StopPropagation 7, Invoke 2 (Some ''out'')]"
    by (simp add: props0_fields)
  with r show ?thesis by blast
qed

text \<open>
  With no \<^verbatim>\<open>onSelectionChange\<close> the click handler still stops the propagation of the
  event, where the claim has it do nothing.
\<close>

theorem click_without_callback_stops_propagation:
  "onSelectionChange props0 = None \<and> handleClick props0 7 ''in'' = [StopPropagation 7]"
  by (simp add: handleClick_def props0_def)




text \<open>
  Claim C7. For every rendered column, the \<^verbatim>\<open>d\<close> of the area path is what the area
  generator of d3-shape returns, configured with the curve that the \<^verbatim>\<open>interpolation\<close>
  prop selects and with the accessors \<open>x0\<close>, \<open>y0\<close> and \<open>y1\<close>, on the stacked data of the
  column; the \<^verbatim>\<open>d\<close> of the outline is what the line generator returns, with the same
  curve and the accessors \<open>x0\<close> and \<open>y1\<close>, on the same data; and the data are the points
  of the specification, one per row, stacked on the earlier columns when \<^verbatim>\<open>stack\<close> is
  true and on none otherwise.
\<close>

theorem rendered_paths_generated:
  assumes "renderPaths E P h columnList direction = (h', c, Inr gs)"
    and "k < length columnList"
  shows "path_d (areaPath (gs ! k)) =
           d3_area E (curves E (interpolation P)) x0 y0 y1 (points (gs ! k)) \<and>
         path_d (outlinePath (gs ! k)) =
           d3_line E (curves E (interpolation P)) x0 y1 (points (gs ! k)) \<and>
         points (gs ! k) =
           map (spec_point P (if direction = ''up'' then 1 else - 1)
                  (if stack P = Some True then take k columnList else []) (columnList ! k))
               [0..<length (series P)]"
  using renderPaths_nth [OF assms] renderPaths_points [OF assms]
  by auto

text \<open>The two paths of the second column going up, as the concrete generators print them.\<close>

theorem rendered_paths_generated_witness:
  "\<exists>h' c gs. renderPaths lib0 props0 [] [''in'', ''out''] ''up'' = (h', c, Inr gs) \<and>
      path_d (areaPath (gs ! 1)) = ''curveLinear 0,97,92 6,96,95'' \<and>
      path_d (outlinePath (gs ! 1)) = ''curveLinear 0,92 6,95''"
proof -
  obtain h' gs where r: "renderPaths lib0 props0 [] [''in'', ''out''] ''up'' = (h', [], Inr gs)"
    using renderPaths_default [of props0 lib0 "[]" "[''in'', ''out'']" "''up''"]
    by (auto simp: props0_fields)
  have k: "1 < length [''in'', ''out'']"
    by simp
  have p: "points (gs ! 1) = [\<lparr>x0 = 0, y0 = 97, y1 = 92\<rparr>, \<lparr>x0 = 6, y0 = 96, y1 = 95\<rparr>]"
    using rendered_paths_generated [OF r k]
    by (simp add: spec_point_def spec_offset_def props0_fields Let_def upt_rec [of 0] upt_rec [of 1])
  from rendered_paths_generated [OF r k]
  have "path_d (areaPath (gs ! 1)) = ''curveLinear 0,97,92 6,96,95'' \<and>
      path_d (outlinePath (gs ! 1)) = ''curveLinear 0,92 6,95''"
    unfolding p by (simp add: lib0_def props0_fields show_int_def)
  with r show ?thesis by blast
qed

text \<open>
  Claim C8, as the code has it. \<^verbatim>\<open>shouldComponentUpdate\<close> returns false exactly when none
  of its nine comparisons finds a change: the series have the same size and are equal for
  \<^verbatim>\<open>TimeSeries.is\<close>, the time scales have the same \<^verbatim>\<open>scaleAsString\<close>, the columns and the
  styles the same JSON serialisation, the y scales are the same object, and the width,
  the interpolation, the highlight and the selection are each unchanged for \<^verbatim>\<open>!==\<close>,
  which is to be the same value and not \<^verbatim>\<open>NaN\<close>. So a change of any one of the nine gives
  true; and identical props give false exactly when \<^verbatim>\<open>TimeSeries.is\<close> holds of the series
  and itself and none of those four props is \<^verbatim>\<open>NaN\<close>.
\<close>

theorem shouldComponentUpdate_unchanged:
  "((\<not> shouldComponentUpdate E P nextProps) =
     (length (series P) = length (series nextProps) \<and>
      TimeSeries_is E (series P) (series nextProps) \<and>
      scaleAsString E (timeScale P) = scaleAsString E (timeScale nextProps) \<and>
      (width P = width nextProps \<and> width P \<noteq> PNaN) \<and>
      (interpolation P = interpolation nextProps \<and> interpolation P \<noteq> PNaN) \<and>
      stringify_columns E (columns P) = stringify_columns E (columns nextProps) \<and>
      stringify_style E (style_prop P) = stringify_style E (style_prop nextProps) \<and>
      scale_ref (yScale P) = scale_ref (yScale nextProps) \<and>
      (highlight P = highlight nextProps \<and> highlight P \<noteq> PNaN) \<and>
      (selection P = selection nextProps \<and> selection P \<noteq> PNaN))) \<and>
   ((\<not> shouldComponentUpdate E P P) =
     (TimeSeries_is E (series P) (series P) \<and>
      width P \<noteq> PNaN \<and> interpolation P \<noteq> PNaN \<and>
      highlight P \<noteq> PNaN \<and> selection P \<noteq> PNaN))"
  by (auto simp: shouldComponentUpdate_def strict_neq_def Let_def)

text \<open>
  The concrete chart against itself; against itself with the highlight gone from
  \<^verbatim>\<open>undefined\<close> to \<^verbatim>\<open>null\<close>; and against itself with another width.
\<close>

theorem shouldComponentUpdate_unchanged_witness:
  "\<not> shouldComponentUpdate lib0 props0 props0 \<and>
   shouldComponentUpdate lib0 props0 (props0\<lparr>highlight := PNull\<rparr>) \<and>
   shouldComponentUpdate lib0 props0 (props0\<lparr>width := PNum 300\<rparr>)"
proof -
  have t: "TimeSeries_is lib0 (series props0) (series props0)"
    by (simp add: lib0_def)
  have n: "width props0 \<noteq> PNaN" "interpolation props0 \<noteq> PNaN"
      "highlight props0 \<noteq> PNaN" "selection props0 \<noteq> PNaN"
    by (simp_all add: props0_def)
  have h: "highlight props0 \<noteq> highlight (props0\<lparr>highlight := PNull\<rparr>)"
    by (simp add: props0_def)
  have w: "width props0 \<noteq> width (props0\<lparr>width := PNum 300\<rparr>)"
    by (simp add: props0_def)
  from t n h w shouldComponentUpdate_unchanged [of lib0 props0 props0]
    shouldComponentUpdate_unchanged [of lib0 props0 "props0\<lparr>highlight := PNull\<rparr>"]
    shouldComponentUpdate_unchanged [of lib0 props0 "props0\<lparr>width := PNum 300\<rparr>"]
  show ?thesis by blast
qed

text \<open>
  Identical props whose width is \<^verbatim>\<open>NaN\<close>: the component updates, where the claim has
  identical props always yield false.
\<close>

theorem identical_props_with_NaN_width_update:
  "shouldComponentUpdate lib0 (props0\<lparr>width := PNaN\<rparr>) (props0\<lparr>width := PNaN\<rparr>)"
  by (simp add: shouldComponentUpdate_def strict_neq_def Let_def)

text \<open>
  Claim C9. When the style prop is absent (falsy), \<^verbatim>\<open>providedAreaStyleMap\<close> returns
  \<^verbatim>\<open>defaultStyle\<close> for every column; \<^verbatim>\<open>defaultStyle\<close> has the keys \<^verbatim>\<open>line\<close> and
  \<^verbatim>\<open>area\<close>, each with an object for every one of the four variants; and
  \<^verbatim>\<open>style(column, type)\<close> writes no message and returns a merged style, the default of
  the variant merged with itself.
\<close>

theorem style_absent_uses_default:
  assumes "\<not> truthy_style (style_prop P)"
    and "type = ''line'' \<or> type = ''area''"
  shows "providedAreaStyleMap P column = Inr defaultStyle \<and>
         has defaultStyle ''line'' \<and> has defaultStyle ''area'' \<and>
         (\<forall>t \<in> {''line'', ''area''}. \<forall>V \<in> {''normal'', ''highlighted'', ''selected'', ''muted''}.
            \<exists>dt kvs. get_prop defaultStyle t = Inr dt \<and> get_prop dt V = Inr (JObj kvs)) \<and>
         fst (style E P column type) = [] \<and>
         (\<exists>dt dv. get_prop defaultStyle type = Inr dt \<and>
            get_prop dt (spec_variant P column) = Inr dv \<and>
            snd (style E P column type) = Inr (merge E True dv dv))"
proof -
  have p: "providedAreaStyleMap P column = Inr defaultStyle"
    using assms(1) by (simp add: providedAreaStyleMap_def)
  have h: "has defaultStyle ''line''" "has defaultStyle ''area''"
    by (simp_all add: defaultStyle_def)
  obtain dt kvs where d: "get_prop defaultStyle type = Inr dt"
      "get_prop dt (spec_variant P column) = Inr (JObj kvs)"
    using default_type_variant [OF assms(2) spec_variant_cases] by blast
  have "snd (style E P column type) = Inr (merge E True (JObj kvs) (JObj kvs))"
    by (simp add: style_snd [OF p] merge_variant_def d)
  moreover have "fst (style E P column type) = []"
    by (simp add: style_fst [OF p] h)
  moreover have "\<forall>t \<in> {''line'', ''area''}. \<forall>V \<in> {''normal'', ''highlighted'', ''selected'', ''muted''}.
            \<exists>dt kvs. get_prop defaultStyle t = Inr dt \<and> get_prop dt V = Inr (JObj kvs)"
    using default_type_variant by blast
  ultimately show ?thesis using p h d by blast
qed

text \<open>The outline of a column of the concrete chart, which has no style prop.\<close>

theorem style_absent_uses_default_witness:
  "\<not> truthy_style (style_prop props0) \<and>
   style lib0 props0 ''in'' ''line'' =
     ([], Inr (JObj [(''stroke'', JStr ''steelblue''), (''fill'', JStr ''none''), (''strokeWidth'', JNum 1)]))"
proof -
  have h: "\<not> truthy_style (style_prop props0)"
    by (simp add: props0_def)
  have v: "spec_variant props0 ''in'' = ''normal''"
    by (simp add: spec_variant_def props0_def)
  have m: "merge lib0 = merge_example"
    by (simp add: lib0_def)
  from style_absent_uses_default [OF h, of "''line''" "''in''" lib0]
  have "fst (style lib0 props0 ''in'' ''line'') = [] \<and>
        snd (style lib0 props0 ''in'' ''line'') =
          Inr (JObj [(''stroke'', JStr ''steelblue''), (''fill'', JStr ''none''), (''strokeWidth'', JNum 1)])"
    by (auto simp: v m defaultStyle_def)
  with h show ?thesis
    by (cases "style lib0 props0 ''in'' ''line''") simp
qed

text \<open>
  Claim C10. \<^verbatim>\<open>Baseline.render\<close> returns \<^verbatim>\<open>null\<close> exactly when the \<^verbatim>\<open>yScale\<close> prop is
  absent or the \<^verbatim>\<open>value\<close> prop is undefined. Otherwise it returns a group translated to
  \<open>yScale(value)\<close>, with a polyline from \<open>0 0\<close> to \<open>width 0\<close>, and a label at \<open>x = 5\<close>
  anchored at its start when the position is \<^verbatim>\<open>left\<close>, at \<open>x = width - 5\<close> anchored at its
  end when the position is \<^verbatim>\<open>right\<close>; a position that is not given is \<^verbatim>\<open>left\<close>.
\<close>

theorem Baseline_render_null_or_group:
  "((snd (Baseline_render L D P) = None) = (bl_yScale P = None \<or> bl_value P = None)) \<and>
   (bl_yScale P = Some ys \<and> bl_value P = Some v \<longrightarrow>
      (\<exists>el. snd (Baseline_render L D P) = Some el \<and>
         transform el = ''translate(0 '' @ num_toString L (scale_fn ys v) @ '')'' \<and>
         polyline_points el = ''0 0 '' @ num_toString L (bl_width P) @ '' 0'' \<and>
         (bl_position P = ''left'' \<longrightarrow>
            text_x el = Some 5 \<and> text_textAnchor el = Some ''start'') \<and>
         (bl_position P = ''right'' \<longrightarrow>
            text_x el = Some (bl_width P - 5) \<and> text_textAnchor el = Some ''end''))) \<and>
   (given_position A = None \<longrightarrow> bl_position (with_defaultProps D A) = ''left'')"
  by (auto simp: Baseline_render_def with_defaultProps_def Let_def split: option.splits)

text \<open>The baseline at 30, with the default position.\<close>

theorem Baseline_render_null_or_group_witness:
  "\<exists>el. snd (Baseline_render baseline_libs0 baseline_style0
             (with_defaultProps baseline_style0 baseline_given0)) = Some el \<and>
        transform el = ''translate(0 70)'' \<and>
        polyline_points el = ''0 0 600 0'' \<and>
        text_x el = Some 5 \<and> text_textAnchor el = Some ''start''"
proof -
  let ?P = "with_defaultProps baseline_style0 baseline_given0"
  have y: "bl_yScale ?P = Some \<lparr>scale_ref = 2, scale_fn = (\<lambda>v. 100 - v)\<rparr>"
    and v: "bl_value ?P = Some 30"
    and w: "bl_width ?P = 600"
    and g: "given_position baseline_given0 = None"
    by (simp_all add: with_defaultProps_def baseline_given0_def)
  have s: "show_int 70 = ''70''" "show_int 600 = ''600''"
    by (simp_all add: show_int_def show_nat.simps)
  from Baseline_render_null_or_group
    [of baseline_libs0 baseline_style0 ?P "\<lparr>scale_ref = 2, scale_fn = (\<lambda>v. 100 - v)\<rparr>" 30
        baseline_given0]
  show ?thesis
    using y v w g s by (auto simp: baseline_libs0_def)
qed

end
